theory Spec2Isabelle
  imports Main "HOL-Library.Word"
begin

section \<open>Python values\<close>

text \<open>
  A Python \<open>str\<close> is a sequence of Unicode code points and \<open>len\<close> counts code points, so
  a \<open>str\<close> is modelled as the list of its code points. \<open>py\<close> writes a literal.
  \<open>bytes\<close> are lists of 8-bit words.
\<close>

type_synonym pystr = "nat list"
type_synonym pybytes = "8 word list"

definition py :: "string \<Rightarrow> pystr" where
  "py s = map of_char s"

text \<open>
  Exceptions are values. \<open>ClientError\<close> stands for the exceptions the AWS SDK raises for a
  failed service call (with the service's error code), \<open>Raised\<close> for any other exception
  (of the JSON library or of a caller-supplied function).
\<close>

datatype error =
    ClientError pystr
  | ValueError pystr
  | KeyError pystr
  | IndexError
  | UnicodeEncodeError
  | Raised pystr

section \<open>The external services\<close>

text \<open>
  The module-level clients \<open>s3\<close> and \<open>polly\<close> talk to services outside the program. The
  model keeps what the program can observe of them in one record:
  \<^item> \<open>objects\<close>: the objects of the buckets, by bucket name and key;
  \<^item> \<open>s3_fault\<close>: the S3 requests that fail for a reason of the service's (access denied,
    throttling, service unavailable), with the exception they raise;
  \<^item> the answers of the three Polly operations the program calls;
  \<^item> \<open>trace\<close>: every request made to a service and every invocation of the caller's
    generation function, in order. The trace is how "was not invoked" and "exactly once"
    are stated.
\<close>

record voice =
  voice_Id :: pystr
  voice_LanguageCode :: pystr
  voice_SupportedEngines :: "pystr list"

record synthesis_request =
  req_Text :: pystr
  req_OutputFormat :: pystr
  req_LanguageCode :: pystr
  req_VoiceId :: pystr
  req_Engine :: pystr

datatype call =
    HeadObject pystr pystr
  | GetObject pystr pystr
  | PutObject pystr pystr pybytes
  | DescribeVoices "pystr option"
  | SynthesizeSpeech synthesis_request
  | StartSpeechSynthesisTask synthesis_request pystr pystr
  | CallGenerate

record world =
  objects :: "pystr \<times> pystr \<Rightarrow> pybytes option"
  s3_fault :: "call \<Rightarrow> error option"
  polly_describe_voices :: "pystr option \<Rightarrow> error + voice list option"
  polly_synthesize_speech :: "synthesis_request \<Rightarrow> error + pybytes option"
  polly_start_speech_synthesis_task :: "synthesis_request \<Rightarrow> pystr \<Rightarrow> pystr \<Rightarrow> error + pystr"
  trace :: "call list"

text \<open>A computation returns a value or an exception, and the world it leaves.\<close>

type_synonym 'a outcome = "(error + 'a) \<times> world"

definition record_call :: "call \<Rightarrow> world \<Rightarrow> world" where
  "record_call c w = w\<lparr>trace := trace w @ [c]\<rparr>"

text \<open>The requests made between world \<open>w\<close> and a later world \<open>w'\<close>.\<close>

definition calls_since :: "world \<Rightarrow> world \<Rightarrow> call list" where
  "calls_since w w' = drop (length (trace w)) (trace w')"

fun is_put :: "call \<Rightarrow> bool" where
  "is_put (PutObject b k body) = True"
| "is_put c = False"

fun is_polly :: "call \<Rightarrow> bool" where
  "is_polly (DescribeVoices l) = True"
| "is_polly (SynthesizeSpeech r) = True"
| "is_polly (StartSpeechSynthesisTask r b k) = True"
| "is_polly c = False"

subsection \<open>S3 requests\<close>

text \<open>
  \<open>head_object\<close> raises for a key that is absent (error code 404), \<open>get_object\<close> raises
  \<open>NoSuchKey\<close>, \<open>put_object\<close> stores the body. Each of them raises the service's fault when
  there is one, and then changes nothing.
\<close>

definition head_object :: "pystr \<Rightarrow> pystr \<Rightarrow> world \<Rightarrow> unit outcome" where
  "head_object bucket key w =
     (let w1 = record_call (HeadObject bucket key) w in
      case s3_fault w (HeadObject bucket key) of
        Some e \<Rightarrow> (Inl e, w1)
      | None \<Rightarrow>
          (case objects w (bucket, key) of
             None \<Rightarrow> (Inl (ClientError (py ''404'')), w1)
           | Some body \<Rightarrow> (Inr (), w1)))"

definition get_object :: "pystr \<Rightarrow> pystr \<Rightarrow> world \<Rightarrow> pybytes outcome" where
  "get_object bucket key w =
     (let w1 = record_call (GetObject bucket key) w in
      case s3_fault w (GetObject bucket key) of
        Some e \<Rightarrow> (Inl e, w1)
      | None \<Rightarrow>
          (case objects w (bucket, key) of
             None \<Rightarrow> (Inl (ClientError (py ''NoSuchKey'')), w1)
           | Some body \<Rightarrow> (Inr body, w1)))"

definition put_object :: "pystr \<Rightarrow> pystr \<Rightarrow> pybytes \<Rightarrow> world \<Rightarrow> unit outcome" where
  "put_object bucket key body w =
     (let w1 = record_call (PutObject bucket key body) w in
      case s3_fault w (PutObject bucket key body) of
        Some e \<Rightarrow> (Inl e, w1)
      | None \<Rightarrow> (Inr (), w1\<lparr>objects := (objects w1)((bucket, key) \<mapsto> body)\<rparr>))"

section \<open>s3\_utils\<close>

text \<open>
  The JSON library is Python's: \<open>dumps\<close> stands for
  \<^verbatim>\<open>json.dumps(v, indent=2).encode('utf-8')\<close> and \<open>loads\<close> for
  \<^verbatim>\<open>json.loads(body.decode('utf-8'))\<close>; both may raise.
\<close>

record 'v json_lib =
  dumps :: "'v \<Rightarrow> error + pybytes"
  loads :: "pybytes \<Rightarrow> error + 'v"

text \<open>
  \<^verbatim>\<open>
  def check_s3_file_exists(bucket_name, file_key):
      try:
          s3.head_object(Bucket=bucket_name, Key=file_key)
          return True
      except Exception as e:
          return False
  \<close>
  Every exception of \<open>head_object\<close> is caught, so the function never raises.
\<close>

definition check_s3_file_exists :: "pystr \<Rightarrow> pystr \<Rightarrow> world \<Rightarrow> bool \<times> world" where
  "check_s3_file_exists bucket_name file_key w =
     (case head_object bucket_name file_key w of
        (Inr u, w1) \<Rightarrow> (True, w1)
      | (Inl e, w1) \<Rightarrow> (False, w1))"

definition get_json_from_s3 :: "'v json_lib \<Rightarrow> pystr \<Rightarrow> pystr \<Rightarrow> world \<Rightarrow> 'v outcome" where
  "get_json_from_s3 json s3_bucket file_key w =
     (case head_object s3_bucket file_key w of
        (Inl e, w1) \<Rightarrow> (Inl e, w1)
      | (Inr u, w1) \<Rightarrow>
          (case get_object s3_bucket file_key w1 of
             (Inl e, w2) \<Rightarrow> (Inl e, w2)
           | (Inr body, w2) \<Rightarrow>
               (case loads json body of
                  Inl e \<Rightarrow> (Inl e, w2)
                | Inr json_content \<Rightarrow> (Inr json_content, w2))))"

definition write_json_to_s3 :: "'v json_lib \<Rightarrow> pystr \<Rightarrow> pystr \<Rightarrow> 'v \<Rightarrow> world \<Rightarrow> pystr outcome" where
  "write_json_to_s3 json bucket_name file_key json_data_to_write w =
     (case dumps json json_data_to_write of
        Inl e \<Rightarrow> (Inl e, w)
      | Inr body \<Rightarrow>
          (case put_object bucket_name file_key body w of
             (Inl e, w1) \<Rightarrow> (Inl e, w1)
           | (Inr u, w1) \<Rightarrow> (Inr file_key, w1)))"

section \<open>s3\_cache\_utils: the response cache\<close>

text \<open>
  \<^verbatim>\<open>
  def get_or_generate_bedrock_response(bucket_name, file_key, call_bedrock_function, *args, **kwargs):
      try:
          file_exists = s3_utils.check_s3_file_exists(bucket_name, file_key)
          if file_exists:
              bedrock_response = s3_utils.get_json_from_s3(bucket_name, file_key)
          else:
              bedrock_response = call_bedrock_function(*args, **kwargs)
              s3_utils.write_json_to_s3(bucket_name, file_key, bedrock_response)
          return bedrock_response, file_exists
      except Exception as e:
          raise e
  \<close>
  The generation function is the caller's; it gets its arguments and returns a value or
  raises. Its invocation is recorded in the trace. The generation functions of this
  program call the text model and do not touch the buckets.
\<close>

definition get_or_generate_bedrock_response ::
  "'v json_lib \<Rightarrow> pystr \<Rightarrow> pystr \<Rightarrow> ('a \<Rightarrow> error + 'v) \<Rightarrow> 'a \<Rightarrow> world \<Rightarrow> ('v \<times> bool) outcome" where
  "get_or_generate_bedrock_response json bucket_name file_key call_bedrock_function args w =
     (case check_s3_file_exists bucket_name file_key w of
        (file_exists, w1) \<Rightarrow>
          if file_exists then
            (case get_json_from_s3 json bucket_name file_key w1 of
               (Inl e, w2) \<Rightarrow> (Inl e, w2)
             | (Inr bedrock_response, w2) \<Rightarrow> (Inr (bedrock_response, file_exists), w2))
          else
            (let w2 = record_call CallGenerate w1 in
             case call_bedrock_function args of
               Inl e \<Rightarrow> (Inl e, w2)
             | Inr bedrock_response \<Rightarrow>
                 (case write_json_to_s3 json bucket_name file_key bedrock_response w2 of
                    (Inl e, w3) \<Rightarrow> (Inl e, w3)
                  | (Inr k, w3) \<Rightarrow> (Inr (bedrock_response, file_exists), w3))))"

section \<open>polly\_utils\<close>

definition SYNTHESIZE_MAX_LENGTH :: nat where
  "SYNTHESIZE_MAX_LENGTH = 3000"

definition ASYNC_SYNTHESIZE_MAX_LENGTH :: nat where
  "ASYNC_SYNTHESIZE_MAX_LENGTH = 180000"

text \<open>The dictionary \<open>synthesize_speech\<close> returns has one of two keys.\<close>

datatype synthesis_result = Audio_key pystr | Task_id pystr

subsection \<open>Polly requests\<close>

definition describe_voices :: "pystr option \<Rightarrow> world \<Rightarrow> (voice list option) outcome" where
  "describe_voices language_code w =
     (polly_describe_voices w language_code, record_call (DescribeVoices language_code) w)"

definition synthesize_speech_request :: "synthesis_request \<Rightarrow> world \<Rightarrow> (pybytes option) outcome" where
  "synthesize_speech_request r w =
     (polly_synthesize_speech w r, record_call (SynthesizeSpeech r) w)"

text \<open>
  Polly runs the task later and writes its output itself; the request only returns the
  task's identifier (\<^verbatim>\<open>response['SynthesisTask']['TaskId']\<close>).
\<close>

definition start_speech_synthesis_task :: "synthesis_request \<Rightarrow> pystr \<Rightarrow> pystr \<Rightarrow> world \<Rightarrow> pystr outcome" where
  "start_speech_synthesis_task r bucket prefix w =
     (polly_start_speech_synthesis_task w r bucket prefix,
      record_call (StartSpeechSynthesisTask r bucket prefix) w)"

subsection \<open>split\_text\_into\_chunks\<close>

text \<open>
  Python's slices take integers: a negative index counts from the end, and an index past
  either end is clamped. \<open>s[:i]\<close> is \<open>slice_to s i\<close> and \<open>s[i:]\<close> is \<open>slice_from s i\<close>.
\<close>

definition slice_index :: "nat \<Rightarrow> int \<Rightarrow> nat" where
  "slice_index n i = (if i < 0 then nat (max 0 (int n + i)) else nat i)"

definition slice_to :: "'a list \<Rightarrow> int \<Rightarrow> 'a list" where
  "slice_to s i = take (slice_index (length s) i) s"

definition slice_from :: "'a list \<Rightarrow> int \<Rightarrow> 'a list" where
  "slice_from s i = drop (slice_index (length s) i) s"

text \<open>\<open>s.rfind(c)\<close> for a single character: the highest index of \<open>c\<close> in \<open>s\<close>, or \<open>-1\<close>.\<close>

fun rfind :: "'a list \<Rightarrow> 'a \<Rightarrow> int" where
  "rfind [] c = -1"
| "rfind (x # xs) c =
     (let r = rfind xs c in
      if r \<noteq> -1 then r + 1 else if x = c then 0 else -1)"

text \<open>
  \<open>s.strip()\<close> removes the whitespace at both ends; \<open>isspace\<close> lists the code points
  Python takes for whitespace.
\<close>

definition isspace :: "nat \<Rightarrow> bool" where
  "isspace c =
     ((9 \<le> c \<and> c \<le> 13) \<or> (28 \<le> c \<and> c \<le> 32) \<or> c = 133 \<or> c = 160 \<or> c = 5760 \<or>
      (8192 \<le> c \<and> c \<le> 8202) \<or> c = 8232 \<or> c = 8233 \<or> c = 8239 \<or> c = 8287 \<or> c = 12288)"

definition strip :: "pystr \<Rightarrow> pystr" where
  "strip s = rev (dropWhile isspace (rev (dropWhile isspace s)))"

text \<open>
  \<^verbatim>\<open>
  chunks = []
  while len(text) > max_length:
      split_index = text[:max_length].rfind('.') + 1
      if split_index == 0:
          split_index = max_length
      chunks.append(text[:split_index].strip())
      text = text[split_index:]
  chunks.append(text.strip())
  return chunks
  \<close>
  Nothing in the source bounds the number of iterations, so the loop is a partial
  function: \<open>None\<close> is a run that never leaves the loop.
\<close>

partial_function (option) split_loop :: "pystr \<Rightarrow> int \<Rightarrow> pystr list \<Rightarrow> pystr list option" where
  "split_loop text max_length chunks =
     (if int (length text) > max_length then
        (let split_index = rfind (slice_to text max_length) (of_char CHR ''.'') + 1;
             split_index = (if split_index = 0 then max_length else split_index)
         in split_loop (slice_from text split_index) max_length
              (chunks @ [strip (slice_to text split_index)]))
      else Some (chunks @ [strip text]))"

declare split_loop.simps [code]

definition split_text_into_chunks :: "pystr \<Rightarrow> int \<Rightarrow> pystr list option" where
  "split_text_into_chunks text max_length = split_loop text max_length []"

subsection \<open>get\_default\_voice\_for\_language\<close>

text \<open>
  \<^verbatim>\<open>
  response = polly.describe_voices(LanguageCode=language_code)
  if 'Voices' in response and len(response['Voices']) > 0:
      return response['Voices'][0]
  else:
      raise ValueError(f"No voices available for language: {language_code}")
  \<close>
\<close>

definition get_default_voice_for_language :: "pystr \<Rightarrow> world \<Rightarrow> voice outcome" where
  "get_default_voice_for_language language_code w =
     (case describe_voices (Some language_code) w of
        (Inl e, w1) \<Rightarrow> (Inl e, w1)
      | (Inr response, w1) \<Rightarrow>
          (case response of
             Some (v # vs) \<Rightarrow> (Inr v, w1)
           | Some [] \<Rightarrow>
               (Inl (ValueError (py ''No voices available for language: '' @ language_code)), w1)
           | None \<Rightarrow>
               (Inl (ValueError (py ''No voices available for language: '' @ language_code)), w1)))"

subsection \<open>process\_audio\_stream\_and\_upload\_to\_s3\<close>

text \<open>
  The audio stream is the list of the bytes still to be read; \<open>read(chunk_size)\<close> takes
  the next \<open>chunk_size\<close> of them. The loop runs while the chunk just read is not empty:
  \<^verbatim>\<open>
  chunk = audio_stream.read(chunk_size)
  while chunk:
      full_data.write(chunk)
      chunk = audio_stream.read(chunk_size)
  \<close>
\<close>

definition chunk_size :: nat where
  "chunk_size = 100 * 1024"

function accumulate :: "pybytes \<Rightarrow> pybytes \<Rightarrow> pybytes \<Rightarrow> pybytes" where
  "accumulate chunk audio_stream full_data =
     (if chunk \<noteq> [] then
        accumulate (take chunk_size audio_stream) (drop chunk_size audio_stream) (full_data @ chunk)
      else full_data)"
  by pat_completeness auto
termination
  by (relation "measure (\<lambda>(chunk, audio_stream, full_data). length chunk + length audio_stream)")
     (auto simp: min_def neq_Nil_conv)

definition process_audio_stream_and_upload_to_s3 :: "pystr \<Rightarrow> pystr \<Rightarrow> pybytes \<Rightarrow> world \<Rightarrow> unit outcome" where
  "process_audio_stream_and_upload_to_s3 bucket file_key audio_stream w =
     (let full_data = accumulate (take chunk_size audio_stream) (drop chunk_size audio_stream) []
      in put_object bucket file_key full_data w)"

subsection \<open>synthesize\_speech\<close>

text \<open>
  The function follows the source branch by branch. The first request lists all voices
  (outside the \<open>try\<close>; a response without \<open>Voices\<close> is a \<open>KeyError\<close>); the supported
  languages are the language codes of these voices. \<^verbatim>\<open>voice['SupportedEngines'][0]\<close>
  raises \<open>IndexError\<close> for a voice without engines, before the request is made.
\<close>

definition synthesize_speech ::
  "pystr \<Rightarrow> pystr \<Rightarrow> pystr \<Rightarrow> pystr \<Rightarrow> pystr \<Rightarrow> bool \<Rightarrow> world \<Rightarrow> synthesis_result outcome" where
  "synthesize_speech bucket_name file_key text output_format language_code async_processing w =
     (case describe_voices None w of
        (Inl e, w1) \<Rightarrow> (Inl e, w1)
      | (Inr None, w1) \<Rightarrow> (Inl (KeyError (py ''Voices'')), w1)
      | (Inr (Some polly_languages), w1) \<Rightarrow>
          if language_code \<in> set (map voice_LanguageCode polly_languages) then
            (case get_default_voice_for_language language_code w1 of
               (Inl e, w2) \<Rightarrow> (Inl e, w2)
             | (Inr voice, w2) \<Rightarrow>
                 (let text_length = length text in
                  if text_length < SYNTHESIZE_MAX_LENGTH \<and> \<not> async_processing then
                    (case voice_SupportedEngines voice of
                       [] \<Rightarrow> (Inl IndexError, w2)
                     | engine # engines \<Rightarrow>
                         (case synthesize_speech_request
                                 \<lparr>req_Text = text, req_OutputFormat = output_format,
                                  req_LanguageCode = language_code, req_VoiceId = voice_Id voice,
                                  req_Engine = engine\<rparr> w2 of
                            (Inl e, w3) \<Rightarrow> (Inl e, w3)
                          | (Inr None, w3) \<Rightarrow>
                              (Inl (ValueError (py ''Error: Response does not contain audio data.'')), w3)
                          | (Inr (Some audio_stream), w3) \<Rightarrow>
                              (case process_audio_stream_and_upload_to_s3
                                      bucket_name file_key audio_stream w3 of
                                 (Inl e, w4) \<Rightarrow> (Inl e, w4)
                               | (Inr u, w4) \<Rightarrow> (Inr (Audio_key file_key), w4))))
                  else if text_length < ASYNC_SYNTHESIZE_MAX_LENGTH then
                    (case voice_SupportedEngines voice of
                       [] \<Rightarrow> (Inl IndexError, w2)
                     | engine # engines \<Rightarrow>
                         (case start_speech_synthesis_task
                                 \<lparr>req_Text = text, req_OutputFormat = output_format,
                                  req_LanguageCode = language_code, req_VoiceId = voice_Id voice,
                                  req_Engine = engine\<rparr> bucket_name file_key w2 of
                            (Inl e, w3) \<Rightarrow> (Inl e, w3)
                          | (Inr task_id, w3) \<Rightarrow> (Inr (Task_id task_id), w3)))
                  else
                    (Inl (ValueError (py ''Error: Text is too long for polly synthesis task.'')), w2)))
          else
            (Inl (ValueError (py ''Language Code '' @ language_code
                               @ py '' not supported by Amazon Polly.'')), w1))"

subsection \<open>get\_synthesis\_file\_key\<close>

text \<open>\<^verbatim>\<open>return f"{file_key}{task_id}.{output_format}"\<close>\<close>

definition get_synthesis_file_key :: "pystr \<Rightarrow> pystr \<Rightarrow> pystr \<Rightarrow> pystr" where
  "get_synthesis_file_key file_key task_id output_format =
     file_key @ task_id @ py ''.'' @ output_format"

section \<open>s3\_cache\_utils: the synthesis cache\<close>

text \<open>
  \<^verbatim>\<open>
  file_exists = s3_utils.check_s3_file_exists(bucket_name, file_key)
  if file_exists:
      synthesis_result = {'audio_key': file_key}
  else:
      synthesis_result = polly_utils.synthesize_speech(bucket_name, file_key, text_to_synthesize,
                             output_format, language_code, async_processing=async_processing)
  return synthesis_result
  \<close>
\<close>

definition get_or_synthesize_speech ::
  "pystr \<Rightarrow> pystr \<Rightarrow> pystr \<Rightarrow> pystr \<Rightarrow> pystr \<Rightarrow> bool \<Rightarrow> world \<Rightarrow> synthesis_result outcome" where
  "get_or_synthesize_speech bucket_name file_key text_to_synthesize output_format language_code
       async_processing w =
     (case check_s3_file_exists bucket_name file_key w of
        (file_exists, w1) \<Rightarrow>
          if file_exists then (Inr (Audio_key file_key), w1)
          else synthesize_speech bucket_name file_key text_to_synthesize output_format
                 language_code async_processing w1)"

section \<open>hash\_utils\<close>

definition ALLOWED_CHARS_HASH :: pystr where
  "ALLOWED_CHARS_HASH = py ''abcdefghijklmnopqrstuvwxyzABCDEFGHIJKLMNOPQRSTUVWXYZ0123456789._-''"

text \<open>\<open>s.find(sub)\<close>: the lowest index where \<open>sub\<close> starts in \<open>s\<close>, or \<open>-1\<close>.\<close>

fun str_find :: "pystr \<Rightarrow> pystr \<Rightarrow> int" where
  "str_find [] sub = (if sub = [] then 0 else -1)"
| "str_find (c # s) sub =
     (if take (length sub) (c # s) = sub then 0
      else (let r = str_find s sub in if r = -1 then -1 else r + 1))"

text \<open>
  \<open>s.encode()\<close> is UTF-8. It raises \<open>UnicodeEncodeError\<close> for a surrogate code point,
  which a Python \<open>str\<close> may hold. Code points from \<open>0x110000\<close> on are not characters; the
  model gives them the same error.
\<close>

definition utf8 :: "nat \<Rightarrow> error + pybytes" where
  "utf8 c =
     (if c < 0x80 then Inr [of_nat c]
      else if c < 0x800 then Inr [of_nat (0xC0 + c div 64), of_nat (0x80 + c mod 64)]
      else if 0xD800 \<le> c \<and> c \<le> 0xDFFF then Inl UnicodeEncodeError
      else if c < 0x10000 then
        Inr [of_nat (0xE0 + c div 4096), of_nat (0x80 + (c div 64) mod 64), of_nat (0x80 + c mod 64)]
      else if c < 0x110000 then
        Inr [of_nat (0xF0 + c div 262144), of_nat (0x80 + (c div 4096) mod 64),
             of_nat (0x80 + (c div 64) mod 64), of_nat (0x80 + c mod 64)]
      else Inl UnicodeEncodeError)"

fun encode :: "pystr \<Rightarrow> error + pybytes" where
  "encode [] = Inr []"
| "encode (c # s) =
     (case utf8 c of
        Inl e \<Rightarrow> Inl e
      | Inr bs \<Rightarrow> (case encode s of Inl e \<Rightarrow> Inl e | Inr rest \<Rightarrow> Inr (bs @ rest)))"

text \<open>
  \<open>base64.urlsafe_b64encode\<close>: three bytes give four symbols of the URL-safe alphabet, and
  a last group of one or two bytes is padded with \<open>=\<close>.
\<close>

definition URLSAFE_ALPHABET :: pystr where
  "URLSAFE_ALPHABET = py ''ABCDEFGHIJKLMNOPQRSTUVWXYZabcdefghijklmnopqrstuvwxyz0123456789-_''"

definition b64_symbol :: "nat \<Rightarrow> 8 word" where
  "b64_symbol n = of_nat (URLSAFE_ALPHABET ! n)"

definition b64_pad :: "8 word" where
  "b64_pad = of_nat (of_char CHR ''='')"

fun urlsafe_b64encode :: "pybytes \<Rightarrow> pybytes" where
  "urlsafe_b64encode (a # b # c # rest) =
     [b64_symbol (unat a div 4),
      b64_symbol ((unat a mod 4) * 16 + unat b div 16),
      b64_symbol ((unat b mod 16) * 4 + unat c div 64),
      b64_symbol (unat c mod 64)] @ urlsafe_b64encode rest"
| "urlsafe_b64encode [a, b] =
     [b64_symbol (unat a div 4),
      b64_symbol ((unat a mod 4) * 16 + unat b div 16),
      b64_symbol ((unat b mod 16) * 4),
      b64_pad]"
| "urlsafe_b64encode [a] =
     [b64_symbol (unat a div 4), b64_symbol ((unat a mod 4) * 16), b64_pad, b64_pad]"
| "urlsafe_b64encode [] = []"

text \<open>
  \<open>.decode('utf-8')\<close> of the encoded digest: Base64 symbols are ASCII, and an ASCII byte
  decodes to the code point of the same number.
\<close>

definition decode_ascii :: "pybytes \<Rightarrow> pystr" where
  "decode_ascii bs = map unat bs"

text \<open>\<open>s.rstrip(c)\<close> for a single character \<open>c\<close>.\<close>

definition rstrip :: "pystr \<Rightarrow> nat \<Rightarrow> pystr" where
  "rstrip s c = rev (dropWhile (\<lambda>x. x = c) (rev s))"

text \<open>
  \<^verbatim>\<open>
  result = file_key
  videos_index = file_key.find("videos")
  if videos_index != -1:
      result = file_key[videos_index:]
  hash_object = hashlib.sha256(result.encode())
  hash_str = base64.urlsafe_b64encode(hash_object.digest()).decode('utf-8')
  hash_str = hash_str.rstrip('=')
  allowed_chars = set(ALLOWED_CHARS_HASH)
  filtered_hash = ''.join(char for char in hash_str if char in allowed_chars)
  return filtered_hash
  \<close>
  SHA-256 is the library's; the function takes it as the parameter \<open>sha256\<close>, from the
  message to its digest.
\<close>

definition deterministic_hash :: "(pybytes \<Rightarrow> pybytes) \<Rightarrow> pystr \<Rightarrow> error + pystr" where
  "deterministic_hash sha256 file_key =
     (let videos_index = str_find file_key (py ''videos'');
          result = (if videos_index \<noteq> -1 then slice_from file_key videos_index else file_key)
      in case encode result of
           Inl e \<Rightarrow> Inl e
         | Inr message \<Rightarrow>
             (let hash_str = decode_ascii (urlsafe_b64encode (sha256 message));
                  hash_str = rstrip hash_str (of_char CHR ''='');
                  filtered_hash = filter (\<lambda>char. char \<in> set ALLOWED_CHARS_HASH) hash_str
              in Inr filtered_hash))"

section \<open>Example worlds\<close>

text \<open>
  Concrete inputs on which the theorems below are exercised: a JSON library whose
  values are the bodies themselves, a Polly with two voices that answers every request,
  and buckets with one object or none.
\<close>

definition bytes_json :: "pybytes json_lib" where
  "bytes_json = \<lparr>dumps = (\<lambda>v. Inr v), loads = (\<lambda>body. Inr body)\<rparr>"

definition joanna :: voice where
  "joanna = \<lparr>voice_Id = py ''Joanna'', voice_LanguageCode = py ''en-US'',
             voice_SupportedEngines = [py ''neural'', py ''standard'']\<rparr>"

definition lea :: voice where
  "lea = \<lparr>voice_Id = py ''Lea'', voice_LanguageCode = py ''fr-FR'',
          voice_SupportedEngines = [py ''standard'']\<rparr>"

definition empty_world :: world where
  "empty_world =
     \<lparr>objects = (\<lambda>k. None),
      s3_fault = (\<lambda>c. None),
      polly_describe_voices =
        (\<lambda>language_code. case language_code of
            None \<Rightarrow> Inr (Some [joanna, lea])
          | Some l \<Rightarrow> Inr (Some (filter (\<lambda>v. voice_LanguageCode v = l) [joanna, lea]))),
      polly_synthesize_speech = (\<lambda>r. Inr (Some [1, 2, 3])),
      polly_start_speech_synthesis_task = (\<lambda>r bucket prefix. Inr (py ''task-1'')),
      trace = []\<rparr>"

definition cached_world :: world where
  "cached_world = empty_world\<lparr>objects := (objects empty_world)((py ''media'', py ''k.json'') \<mapsto> [7, 8])\<rparr>"

text \<open>The same buckets while S3 refuses \<open>head_object\<close> requests.\<close>

definition unreachable_world :: world where
  "unreachable_world =
     cached_world\<lparr>s3_fault :=
       (\<lambda>c. case c of HeadObject b k \<Rightarrow> Some (ClientError (py ''ServiceUnavailable'')) | _ \<Rightarrow> None)\<rparr>"

text \<open>The SHA-256 digest of the UTF-8 bytes of \<open>videos/lecture1.mp4\<close>.\<close>

definition lecture1_digest :: pybytes where
  "lecture1_digest =
     [26, 159, 180, 245, 252, 210, 73, 20, 86, 73, 203, 98, 110, 65, 175, 46,
      167, 95, 70, 36, 255, 53, 146, 121, 103, 228, 143, 112, 97, 162, 130, 132]"

text \<open>A SHA-256 that knows this one message.\<close>

definition lecture1_sha256 :: "pybytes \<Rightarrow> pybytes" where
  "lecture1_sha256 message =
     (if message = map of_nat (py ''videos/lecture1.mp4'') then lecture1_digest else [])"

section \<open>The trace and the S3 requests\<close>

lemma record_call_simps [simp]:
  "objects (record_call c w) = objects w"
  "s3_fault (record_call c w) = s3_fault w"
  "polly_describe_voices (record_call c w) = polly_describe_voices w"
  "polly_synthesize_speech (record_call c w) = polly_synthesize_speech w"
  "polly_start_speech_synthesis_task (record_call c w) = polly_start_speech_synthesis_task w"
  "trace (record_call c w) = trace w @ [c]"
  by (simp_all add: record_call_def)

lemma head_object_present:
  "objects w (b, k) = Some body \<Longrightarrow> s3_fault w (HeadObject b k) = None \<Longrightarrow>
   head_object b k w = (Inr (), record_call (HeadObject b k) w)"
  by (simp add: head_object_def Let_def)

lemma head_object_absent:
  "objects w (b, k) = None \<Longrightarrow> \<exists>e. head_object b k w = (Inl e, record_call (HeadObject b k) w)"
  by (simp add: head_object_def Let_def split: option.splits)

lemma check_present:
  "objects w (b, k) = Some body \<Longrightarrow> s3_fault w (HeadObject b k) = None \<Longrightarrow>
   check_s3_file_exists b k w = (True, record_call (HeadObject b k) w)"
  by (simp add: check_s3_file_exists_def head_object_present)

lemma check_absent:
  "objects w (b, k) = None \<Longrightarrow>
   check_s3_file_exists b k w = (False, record_call (HeadObject b k) w)"
  using head_object_absent [of w b k] by (auto simp: check_s3_file_exists_def)

lemma check_fault:
  "s3_fault w (HeadObject b k) = Some e \<Longrightarrow>
   check_s3_file_exists b k w = (False, record_call (HeadObject b k) w)"
  by (simp add: check_s3_file_exists_def head_object_def Let_def)

lemma put_object_result:
  "put_object b k body w =
     (case s3_fault w (PutObject b k body) of
        Some e \<Rightarrow> (Inl e, record_call (PutObject b k body) w)
      | None \<Rightarrow> (Inr (), (record_call (PutObject b k body) w)\<lparr>objects := (objects w)((b, k) \<mapsto> body)\<rparr>))"
  by (simp add: put_object_def Let_def split: option.splits)

lemma get_json_from_s3_present:
  assumes "objects w (b, k) = Some body" and "s3_fault w (HeadObject b k) = None"
  shows "get_json_from_s3 json b k w =
    (case s3_fault w (GetObject b k) of
       Some e \<Rightarrow> (Inl e, record_call (GetObject b k) (record_call (HeadObject b k) w))
     | None \<Rightarrow> (loads json body, record_call (GetObject b k) (record_call (HeadObject b k) w)))"
  using assms
  by (auto simp: get_json_from_s3_def head_object_present get_object_def Let_def
           split: option.splits sum.splits)

lemma cache_miss_run:
  assumes absent: "objects w (b, k) = None"
  shows "get_or_generate_bedrock_response json b k f args w =
    (let w2 = record_call CallGenerate (record_call (HeadObject b k) w) in
     case f args of
       Inl e \<Rightarrow> (Inl e, w2)
     | Inr v \<Rightarrow>
         (case dumps json v of
            Inl e \<Rightarrow> (Inl e, w2)
          | Inr body \<Rightarrow>
              (case s3_fault w (PutObject b k body) of
                 Some e \<Rightarrow> (Inl e, record_call (PutObject b k body) w2)
               | None \<Rightarrow> (Inr (v, False),
                   (record_call (PutObject b k body) w2)\<lparr>objects := (objects w)((b, k) \<mapsto> body)\<rparr>))))"
  by (simp add: get_or_generate_bedrock_response_def check_absent [OF absent]
        write_json_to_s3_def put_object_result Let_def split: sum.splits option.splits)

lemma example_world_simps:
  "objects empty_world k = None"
  "s3_fault empty_world c = None"
  "trace empty_world = []"
  "objects cached_world (py ''media'', py ''k.json'') = Some [7, 8]"
  "s3_fault cached_world c = None"
  "trace cached_world = []"
  "objects unreachable_world (py ''media'', py ''k.json'') = Some [7, 8]"
  "s3_fault unreachable_world (HeadObject b k') = Some (ClientError (py ''ServiceUnavailable''))"
  "s3_fault unreachable_world (PutObject b k' body) = None"
  "trace unreachable_world = []"
  by (simp_all add: empty_world_def cached_world_def unreachable_world_def)

lemma polly_example_simps:
  "polly_describe_voices empty_world None = Inr (Some [joanna, lea])"
  "polly_describe_voices empty_world (Some (py ''en-US'')) = Inr (Some [joanna])"
  "polly_synthesize_speech empty_world r = Inr (Some [1, 2, 3])"
  "polly_start_speech_synthesis_task empty_world r b k = Inr (py ''task-1'')"
  "voice_SupportedEngines joanna = [py ''neural'', py ''standard'']"
  "py ''en-US'' \<in> set (map voice_LanguageCode [joanna, lea])"
  "py ''de-DE'' \<notin> set (map voice_LanguageCode [joanna, lea])"
  by (simp_all add: empty_world_def joanna_def lea_def py_def)

lemma unreachable_polly_simps:
  "polly_describe_voices unreachable_world None = Inr (Some [joanna, lea])"
  "polly_describe_voices unreachable_world (Some (py ''en-US'')) = Inr (Some [joanna])"
  "polly_synthesize_speech unreachable_world r = Inr (Some [1, 2, 3])"
  "polly_start_speech_synthesis_task unreachable_world r b k = Inr (py ''task-1'')"
  by (simp_all add: unreachable_world_def cached_world_def empty_world_def joanna_def lea_def py_def)

section \<open>The response cache\<close>

text \<open>
  The cache hit. When the key is in the store and the store answers the existence check,
  \<open>get_or_generate_bedrock_response\<close> does not invoke the generation function and writes
  nothing; it returns the stored value, as the JSON library reads it, with the flag
  \<open>True\<close>, and it cannot return anything else.
\<close>

theorem cache_hit_suppresses_generation:
  assumes present: "objects w (bucket_name, file_key) = Some body"
      and answers: "s3_fault w (HeadObject bucket_name file_key) = None"
  shows "case get_or_generate_bedrock_response json bucket_name file_key f args w of
           (r, w') \<Rightarrow>
             CallGenerate \<notin> set (calls_since w w') \<and>
             objects w' = objects w \<and>
             (\<forall>v. s3_fault w (GetObject bucket_name file_key) = None \<longrightarrow>
                  loads json body = Inr v \<longrightarrow> r = Inr (v, True)) \<and>
             (\<forall>v c. r = Inr (v, c) \<longrightarrow> c \<and> loads json body = Inr v)"
proof -
  let ?w1 = "record_call (HeadObject bucket_name file_key) w"
  have c: "check_s3_file_exists bucket_name file_key w = (True, ?w1)"
    using present answers by (rule check_present)
  have g: "get_json_from_s3 json bucket_name file_key ?w1 =
    (case s3_fault w (GetObject bucket_name file_key) of
       Some e \<Rightarrow> (Inl e, record_call (GetObject bucket_name file_key)
                    (record_call (HeadObject bucket_name file_key) ?w1))
     | None \<Rightarrow> (loads json body, record_call (GetObject bucket_name file_key)
                    (record_call (HeadObject bucket_name file_key) ?w1)))"
    using get_json_from_s3_present [of ?w1 bucket_name file_key body json] present answers
    by simp
  show ?thesis
    by (auto simp: get_or_generate_bedrock_response_def c g calls_since_def
             split: option.splits sum.splits)
qed

theorem cache_hit_suppresses_generation_witness:
  "fst (get_or_generate_bedrock_response bytes_json (py ''media'') (py ''k.json'')
          (\<lambda>u :: unit. Inr [9]) () cached_world) = Inr ([7, 8], True)"
proof -
  let ?G = "get_or_generate_bedrock_response bytes_json (py ''media'') (py ''k.json'')
          (\<lambda>u :: unit. Inr [9]) () cached_world"
  have p: "objects cached_world (py ''media'', py ''k.json'') = Some [7, 8]"
    by (rule example_world_simps)
  have a: "s3_fault cached_world (HeadObject (py ''media'') (py ''k.json'')) = None"
    by (rule example_world_simps)
  have g: "s3_fault cached_world (GetObject (py ''media'') (py ''k.json'')) = None"
    by (rule example_world_simps)
  have l: "loads bytes_json [7, 8] = Inr [7, 8]"
    by (simp add: bytes_json_def)
  obtain r w' where run: "?G = (r, w')"
    by (cases ?G)
  have "case ?G of (r, w') \<Rightarrow>
          CallGenerate \<notin> set (calls_since cached_world w') \<and>
          objects w' = objects cached_world \<and>
          (\<forall>v. s3_fault cached_world (GetObject (py ''media'') (py ''k.json'')) = None \<longrightarrow>
               loads bytes_json [7, 8] = Inr v \<longrightarrow> r = Inr (v, True)) \<and>
          (\<forall>v c. r = Inr (v, c) \<longrightarrow> c \<and> loads bytes_json [7, 8] = Inr v)"
    by (rule cache_hit_suppresses_generation [OF p a])
  then have "\<forall>v. s3_fault cached_world (GetObject (py ''media'') (py ''k.json'')) = None \<longrightarrow>
            loads bytes_json [7, 8] = Inr v \<longrightarrow> r = Inr (v, True)"
    unfolding run prod.case by (elim conjE)
  with g l have "r = Inr ([7, 8], True)"
    by blast
  with run show ?thesis
    by simp
qed

text \<open>
  C2. The claim speaks of every key in the store. In the run below the key holds a valid
  value and S3 refuses the existence check. \<open>check_s3_file_exists\<close> catches the refusal
  and answers \<open>False\<close>, so the generation function is invoked, its value is returned with
  the flag \<open>False\<close>, and the stored value is overwritten. The \<open>except\<close> that swallows the
  refusal is the one of C5.
\<close>

theorem cached_value_regenerated_when_check_refused:
  "objects unreachable_world (py ''media'', py ''k.json'') = Some [7, 8] \<and>
   loads bytes_json [7, 8] = Inr [7, 8] \<and>
   (case get_or_generate_bedrock_response bytes_json (py ''media'') (py ''k.json'')
           (\<lambda>u :: unit. Inr [9]) () unreachable_world of
      (r, w') \<Rightarrow>
        r = Inr ([9], False) \<and>
        count_list (calls_since unreachable_world w') CallGenerate = 1 \<and>
        objects w' (py ''media'', py ''k.json'') = Some [9])"
  by (simp add: get_or_generate_bedrock_response_def check_fault [OF example_world_simps(8)]
        write_json_to_s3_def put_object_result example_world_simps bytes_json_def
        calls_since_def Let_def)

text \<open>
  C3. When the key is absent, \<open>get_or_generate_bedrock_response\<close> invokes the generation
  function exactly once and writes at most once. When the generation succeeds (and the
  value is serialised and S3 accepts the write), the value is returned with the flag
  \<open>False\<close>, and the one write of the run puts it at the key.
\<close>

theorem cache_miss_persists_once:
  assumes absent: "objects w (bucket_name, file_key) = None"
  shows "case get_or_generate_bedrock_response json bucket_name file_key f args w of
           (r, w') \<Rightarrow>
             count_list (calls_since w w') CallGenerate = 1 \<and>
             length (filter is_put (calls_since w w')) \<le> 1 \<and>
             (\<forall>v body. f args = Inr v \<longrightarrow> dumps json v = Inr body \<longrightarrow>
                 s3_fault w (PutObject bucket_name file_key body) = None \<longrightarrow>
                   r = Inr (v, False) \<and>
                   filter is_put (calls_since w w') = [PutObject bucket_name file_key body] \<and>
                   objects w' = (objects w)((bucket_name, file_key) \<mapsto> body))"
  by (simp add: cache_miss_run [OF absent] calls_since_def Let_def
        split: sum.splits option.splits)

theorem cache_miss_persists_once_witness:
  "get_or_generate_bedrock_response bytes_json (py ''media'') (py ''k.json'')
      (\<lambda>u :: unit. Inr [9]) () empty_world =
   (Inr ([9], False),
    empty_world\<lparr>objects := (objects empty_world)((py ''media'', py ''k.json'') \<mapsto> [9]),
                 trace := [HeadObject (py ''media'') (py ''k.json''), CallGenerate,
                           PutObject (py ''media'') (py ''k.json'') [9]]\<rparr>)"
proof -
  have d: "dumps bytes_json [9] = Inr [9]"
    by (simp add: bytes_json_def)
  have run: "get_or_generate_bedrock_response bytes_json (py ''media'') (py ''k.json'')
      (\<lambda>u :: unit. Inr [9]) () empty_world =
   (Inr ([9], False),
    empty_world\<lparr>objects := (objects empty_world)((py ''media'', py ''k.json'') \<mapsto> [9]),
                 trace := [HeadObject (py ''media'') (py ''k.json''), CallGenerate,
                           PutObject (py ''media'') (py ''k.json'') [9]]\<rparr>)"
    by (simp add: cache_miss_run example_world_simps d record_call_def)
  show ?thesis
    using cache_miss_persists_once
      [where w = empty_world and bucket_name = "py ''media''" and file_key = "py ''k.json''"
         and json = bytes_json and f = "\<lambda>u :: unit. Inr [9]" and args = "()"] run
    by simp
qed

text \<open>
  C4. When the key is absent and the generation function raises, the exception reaches
  the caller, no write is requested, the store is as it was and does not hold the key,
  and a retry on the world left behind invokes generation again.
\<close>

theorem generation_failure_leaves_no_trace:
  assumes absent: "objects w (bucket_name, file_key) = None"
      and raises: "f args = Inl e"
  shows "case get_or_generate_bedrock_response json bucket_name file_key f args w of
           (r, w') \<Rightarrow>
             r = Inl e \<and>
             filter is_put (calls_since w w') = [] \<and>
             objects w' = objects w \<and>
             objects w' (bucket_name, file_key) = None \<and>
             count_list (calls_since w'
               (snd (get_or_generate_bedrock_response json bucket_name file_key f' args' w')))
               CallGenerate = 1"
proof -
  let ?w2 = "record_call CallGenerate (record_call (HeadObject bucket_name file_key) w)"
  have run: "get_or_generate_bedrock_response json bucket_name file_key f args w = (Inl e, ?w2)"
    by (simp add: cache_miss_run [OF absent] raises Let_def)
  have absent2: "objects ?w2 (bucket_name, file_key) = None"
    using absent by simp
  show ?thesis
    using absent
    by (simp add: run cache_miss_run [OF absent2] calls_since_def Let_def
          split: sum.splits option.splits)
qed

theorem generation_failure_leaves_no_trace_witness:
  "fst (get_or_generate_bedrock_response bytes_json (py ''media'') (py ''k.json'')
          (\<lambda>u :: unit. Inl (Raised (py ''ThrottlingException''))) () empty_world) =
     Inl (Raised (py ''ThrottlingException''))"
  using generation_failure_leaves_no_trace
    [where w = empty_world and bucket_name = "py ''media''" and file_key = "py ''k.json''"
       and f = "\<lambda>u :: unit. Inl (Raised (py ''ThrottlingException''))" and args = "()"
       and e = "Raised (py ''ThrottlingException'')" and json = bytes_json
       and f' = "\<lambda>u :: unit. Inr [9]" and args' = "()"]
  by (auto simp: example_world_simps split: prod.splits)

text \<open>
  C5. The run below starts with a valid value cached at the key while S3 refuses the
  existence check. \<open>check_s3_file_exists\<close> turns the refusal into \<open>False\<close>: nothing is
  raised, the generation function is invoked, and the cached value is overwritten.
\<close>

theorem unreachable_store_is_swallowed:
  "check_s3_file_exists (py ''media'') (py ''k.json'') unreachable_world =
     (False, record_call (HeadObject (py ''media'') (py ''k.json'')) unreachable_world) \<and>
   get_or_generate_bedrock_response bytes_json (py ''media'') (py ''k.json'')
      (\<lambda>u :: unit. Inr [9]) () unreachable_world =
     (Inr ([9], False),
      unreachable_world\<lparr>objects := (objects unreachable_world)((py ''media'', py ''k.json'') \<mapsto> [9]),
                   trace := [HeadObject (py ''media'') (py ''k.json''), CallGenerate,
                             PutObject (py ''media'') (py ''k.json'') [9]]\<rparr>)"
  by (simp add: get_or_generate_bedrock_response_def check_fault [OF example_world_simps(8)]
        write_json_to_s3_def put_object_result example_world_simps bytes_json_def
        record_call_def Let_def)

section \<open>The synthesis decision\<close>

lemma accumulate_all:
  "(chunk = [] \<longrightarrow> audio_stream = []) \<Longrightarrow>
   accumulate chunk audio_stream full_data = full_data @ chunk @ audio_stream"
proof (induction chunk audio_stream full_data rule: accumulate.induct)
  case (1 chunk audio_stream full_data)
  show ?case
  proof (cases "chunk = []")
    case True
    with "1.prems" show ?thesis
      by simp
  next
    case False
    have "take chunk_size audio_stream = [] \<longrightarrow> drop chunk_size audio_stream = []"
      by (auto simp: chunk_size_def)
    with "1.IH" [OF False] False show ?thesis
      by (simp del: accumulate.simps add: accumulate.simps [of chunk])
  qed
qed

lemma process_audio_stream_is_put:
  "process_audio_stream_and_upload_to_s3 bucket file_key audio_stream w =
     put_object bucket file_key audio_stream w"
proof -
  have "take chunk_size audio_stream = [] \<longrightarrow> drop chunk_size audio_stream = []"
    by (auto simp: chunk_size_def)
  then have "accumulate (take chunk_size audio_stream) (drop chunk_size audio_stream) []
               = audio_stream"
    by (simp add: accumulate_all del: accumulate.simps)
  then show ?thesis
    by (simp add: process_audio_stream_and_upload_to_s3_def del: accumulate.simps)
qed

lemma synthesize_speech_run:
  assumes supported: "polly_describe_voices w None = Inr (Some voices)"
                     "language_code \<in> set (map voice_LanguageCode voices)"
      and available: "polly_describe_voices w (Some language_code) = Inr (Some (v # vs))"
      and engine: "voice_SupportedEngines v = engine # engines"
  shows "synthesize_speech bucket_name file_key text output_format language_code async_processing w =
    (let w2 = record_call (DescribeVoices (Some language_code)) (record_call (DescribeVoices None) w);
         r = \<lparr>req_Text = text, req_OutputFormat = output_format,
              req_LanguageCode = language_code, req_VoiceId = voice_Id v, req_Engine = engine\<rparr>
     in if length text < SYNTHESIZE_MAX_LENGTH \<and> \<not> async_processing then
          (case polly_synthesize_speech w r of
             Inl e \<Rightarrow> (Inl e, record_call (SynthesizeSpeech r) w2)
           | Inr None \<Rightarrow>
               (Inl (ValueError (py ''Error: Response does not contain audio data.'')),
                record_call (SynthesizeSpeech r) w2)
           | Inr (Some audio) \<Rightarrow>
               (case s3_fault w (PutObject bucket_name file_key audio) of
                  Some e \<Rightarrow> (Inl e, record_call (PutObject bucket_name file_key audio)
                                      (record_call (SynthesizeSpeech r) w2))
                | None \<Rightarrow> (Inr (Audio_key file_key),
                    (record_call (PutObject bucket_name file_key audio)
                       (record_call (SynthesizeSpeech r) w2))
                    \<lparr>objects := (objects w)((bucket_name, file_key) \<mapsto> audio)\<rparr>)))
        else if length text < ASYNC_SYNTHESIZE_MAX_LENGTH then
          (case polly_start_speech_synthesis_task w r bucket_name file_key of
             Inl e \<Rightarrow> (Inl e, record_call (StartSpeechSynthesisTask r bucket_name file_key) w2)
           | Inr task_id \<Rightarrow>
               (Inr (Task_id task_id),
                record_call (StartSpeechSynthesisTask r bucket_name file_key) w2))
        else (Inl (ValueError (py ''Error: Text is too long for polly synthesis task.'')), w2))"
  using assms
  by (simp add: synthesize_speech_def describe_voices_def get_default_voice_for_language_def
        synthesize_speech_request_def start_speech_synthesis_task_def
        process_audio_stream_is_put put_object_result Let_def
        split: sum.splits option.splits)

text \<open>
  C1. The language is in the supported set, a voice is available for it, and the voice
  names an engine. Then:
  \<^item> a text of length \<open>SYNTHESIZE_MAX_LENGTH - 1\<close> without \<open>async_processing\<close> goes to the
    synchronous request and to no task request, and when Polly returns audio and S3
    accepts the upload the result is \<open>audio_key\<close> with the audio stored at \<open>file_key\<close>;
  \<^item> a text of length \<open>SYNTHESIZE_MAX_LENGTH\<close>, or any text with \<open>async_processing\<close>, of
    length below \<open>ASYNC_SYNTHESIZE_MAX_LENGTH\<close> goes to the task request and to no
    synchronous request, nothing is stored, and when Polly accepts the task the result
    is its \<open>task_id\<close>;
  \<^item> a text longer than \<open>ASYNC_SYNTHESIZE_MAX_LENGTH\<close> raises the text-too-long
    \<open>ValueError\<close> and no synthesis is requested.
\<close>

theorem synthesis_mode_selection:
  assumes supported: "polly_describe_voices w None = Inr (Some voices)"
                     "language_code \<in> set (map voice_LanguageCode voices)"
      and available: "polly_describe_voices w (Some language_code) = Inr (Some (v # vs))"
      and engine: "voice_SupportedEngines v = engine # engines"
      and request: "r = \<lparr>req_Text = text, req_OutputFormat = output_format,
                          req_LanguageCode = language_code, req_VoiceId = voice_Id v,
                          req_Engine = engine\<rparr>"
  shows "case synthesize_speech bucket_name file_key text output_format language_code
                async_processing w of
           (result, w') \<Rightarrow>
             (length text = SYNTHESIZE_MAX_LENGTH - 1 \<and> \<not> async_processing \<longrightarrow>
                filter is_polly (calls_since w w') =
                  [DescribeVoices None, DescribeVoices (Some language_code), SynthesizeSpeech r] \<and>
                (\<forall>audio. polly_synthesize_speech w r = Inr (Some audio) \<longrightarrow>
                    s3_fault w (PutObject bucket_name file_key audio) = None \<longrightarrow>
                      result = Inr (Audio_key file_key) \<and>
                      objects w' = (objects w)((bucket_name, file_key) \<mapsto> audio))) \<and>
             ((length text = SYNTHESIZE_MAX_LENGTH \<or> async_processing) \<and>
              length text < ASYNC_SYNTHESIZE_MAX_LENGTH \<longrightarrow>
                filter is_polly (calls_since w w') =
                  [DescribeVoices None, DescribeVoices (Some language_code),
                   StartSpeechSynthesisTask r bucket_name file_key] \<and>
                objects w' = objects w \<and>
                (\<forall>task_id. polly_start_speech_synthesis_task w r bucket_name file_key = Inr task_id \<longrightarrow>
                    result = Inr (Task_id task_id))) \<and>
             (length text > ASYNC_SYNTHESIZE_MAX_LENGTH \<longrightarrow>
                result = Inl (ValueError (py ''Error: Text is too long for polly synthesis task.'')) \<and>
                filter is_polly (calls_since w w') =
                  [DescribeVoices None, DescribeVoices (Some language_code)])"
proof -
  let ?w2 = "record_call (DescribeVoices (Some language_code)) (record_call (DescribeVoices None) w)"
  let ?S = "synthesize_speech bucket_name file_key text output_format language_code
              async_processing w"
  note run = synthesize_speech_run [OF supported available engine, of bucket_name file_key "text"
      output_format async_processing, folded request]
  have sync: "length text = SYNTHESIZE_MAX_LENGTH - 1 \<Longrightarrow> length text < SYNTHESIZE_MAX_LENGTH"
    by (simp add: SYNTHESIZE_MAX_LENGTH_def)
  have long: "length text > ASYNC_SYNTHESIZE_MAX_LENGTH \<Longrightarrow> \<not> length text < SYNTHESIZE_MAX_LENGTH"
    by (simp add: SYNTHESIZE_MAX_LENGTH_def ASYNC_SYNTHESIZE_MAX_LENGTH_def)
  show ?thesis
  proof (cases "length text < SYNTHESIZE_MAX_LENGTH \<and> \<not> async_processing")
    case True
    have val: "?S =
      (case polly_synthesize_speech w r of
         Inl e \<Rightarrow> (Inl e, record_call (SynthesizeSpeech r) ?w2)
       | Inr None \<Rightarrow>
           (Inl (ValueError (py ''Error: Response does not contain audio data.'')),
            record_call (SynthesizeSpeech r) ?w2)
       | Inr (Some audio) \<Rightarrow>
           (case s3_fault w (PutObject bucket_name file_key audio) of
              Some e \<Rightarrow> (Inl e, record_call (PutObject bucket_name file_key audio)
                                  (record_call (SynthesizeSpeech r) ?w2))
            | None \<Rightarrow> (Inr (Audio_key file_key),
                (record_call (PutObject bucket_name file_key audio)
                   (record_call (SynthesizeSpeech r) ?w2))
                \<lparr>objects := (objects w)((bucket_name, file_key) \<mapsto> audio)\<rparr>)))"
      unfolding run Let_def by (simp only: if_P [OF True])
    have other: "length text \<noteq> SYNTHESIZE_MAX_LENGTH" "\<not> async_processing"
      "\<not> length text > ASYNC_SYNTHESIZE_MAX_LENGTH"
      using True long by auto
    show ?thesis
      unfolding val using other
      by (simp add: calls_since_def split: sum.splits option.splits)
  next
    case False
    then have notsync: "\<not> (length text = SYNTHESIZE_MAX_LENGTH - 1 \<and> \<not> async_processing)"
      using sync by blast
    show ?thesis
    proof (cases "length text < ASYNC_SYNTHESIZE_MAX_LENGTH")
      case True
      have val: "?S =
        (case polly_start_speech_synthesis_task w r bucket_name file_key of
           Inl e \<Rightarrow> (Inl e, record_call (StartSpeechSynthesisTask r bucket_name file_key) ?w2)
         | Inr task_id \<Rightarrow>
             (Inr (Task_id task_id),
              record_call (StartSpeechSynthesisTask r bucket_name file_key) ?w2))"
        unfolding run Let_def by (simp only: if_not_P [OF False] if_P [OF True])
      have other: "\<not> length text > ASYNC_SYNTHESIZE_MAX_LENGTH"
        using True by simp
      show ?thesis
        unfolding val using other notsync
        by (simp add: calls_since_def split: sum.splits)
    next
      case no: False
      have val: "?S =
        (Inl (ValueError (py ''Error: Text is too long for polly synthesis task.'')), ?w2)"
        unfolding run Let_def by (simp only: if_not_P [OF False] if_not_P [OF no])
      show ?thesis
        unfolding val using no notsync
        by (simp add: calls_since_def)
    qed
  qed
qed

theorem synthesis_mode_selection_witness:
  "fst (synthesize_speech (py ''media'') (py ''a.mp3'') (replicate 2999 97) (py ''mp3'')
          (py ''en-US'') False empty_world) = Inr (Audio_key (py ''a.mp3'')) \<and>
   fst (synthesize_speech (py ''media'') (py ''a.mp3'') (replicate 3000 97) (py ''mp3'')
          (py ''en-US'') False empty_world) = Inr (Task_id (py ''task-1'')) \<and>
   fst (synthesize_speech (py ''media'') (py ''a.mp3'') (replicate 50000 97) (py ''mp3'')
          (py ''en-US'') True empty_world) = Inr (Task_id (py ''task-1'')) \<and>
   fst (synthesize_speech (py ''media'') (py ''a.mp3'') (replicate 180001 97) (py ''mp3'')
          (py ''en-US'') False empty_world) =
     Inl (ValueError (py ''Error: Text is too long for polly synthesis task.''))"
proof -
  have sel: "case synthesize_speech (py ''media'') (py ''a.mp3'') (replicate n 97) (py ''mp3'')
                (py ''en-US'') a empty_world of
           (result, w') \<Rightarrow>
             (n = SYNTHESIZE_MAX_LENGTH - 1 \<and> \<not> a \<longrightarrow>
                result = Inr (Audio_key (py ''a.mp3''))) \<and>
             ((n = SYNTHESIZE_MAX_LENGTH \<or> a) \<and> n < ASYNC_SYNTHESIZE_MAX_LENGTH \<longrightarrow>
                result = Inr (Task_id (py ''task-1''))) \<and>
             (n > ASYNC_SYNTHESIZE_MAX_LENGTH \<longrightarrow>
                result = Inl (ValueError (py ''Error: Text is too long for polly synthesis task.'')))"
    for n a
    using synthesis_mode_selection [OF polly_example_simps(1) polly_example_simps(6)
        polly_example_simps(2) polly_example_simps(5) refl,
        where ?text = "replicate n 97" and output_format = "py ''mp3''"
          and bucket_name = "py ''media''" and file_key = "py ''a.mp3''"
          and async_processing = a]
    by (auto simp: polly_example_simps example_world_simps split: prod.splits)
  have 1: "2999 = SYNTHESIZE_MAX_LENGTH - 1 \<and> \<not> False"
    and 2: "(3000 = SYNTHESIZE_MAX_LENGTH \<or> False) \<and> 3000 < ASYNC_SYNTHESIZE_MAX_LENGTH"
    and 3: "(50000 = SYNTHESIZE_MAX_LENGTH \<or> True) \<and> 50000 < ASYNC_SYNTHESIZE_MAX_LENGTH"
    and 4: "180001 > ASYNC_SYNTHESIZE_MAX_LENGTH"
    by (simp_all add: SYNTHESIZE_MAX_LENGTH_def ASYNC_SYNTHESIZE_MAX_LENGTH_def)
  show ?thesis
    using sel [of 2999 False] sel [of 3000 False] sel [of 50000 True] sel [of 180001 False]
      1 2 3 4
    by (auto split: prod.splits)
qed

text \<open>
  The audio hit. When the audio key is in the store and the store answers the existence check,
  \<open>get_or_synthesize_speech\<close> returns \<open>audio_key\<close> after that one S3 request: no request
  goes to Polly and nothing is written.
\<close>

theorem existing_audio_short_circuits:
  assumes present: "objects w (bucket_name, file_key) = Some audio"
      and answers: "s3_fault w (HeadObject bucket_name file_key) = None"
  shows "\<exists>w'. get_or_synthesize_speech bucket_name file_key text_to_synthesize output_format
                 language_code async_processing w = (Inr (Audio_key file_key), w') \<and>
              calls_since w w' = [HeadObject bucket_name file_key] \<and>
              filter is_polly (calls_since w w') = [] \<and>
              objects w' = objects w"
  by (simp add: get_or_synthesize_speech_def check_present [OF present answers] calls_since_def)

theorem existing_audio_short_circuits_witness:
  "fst (get_or_synthesize_speech (py ''media'') (py ''k.json'') (replicate 5 97) (py ''mp3'')
          (py ''en-US'') False cached_world) = Inr (Audio_key (py ''k.json''))"
  using existing_audio_short_circuits
    [OF example_world_simps(4) example_world_simps(5),
     where text_to_synthesize = "replicate 5 97" and output_format = "py ''mp3''"
       and language_code = "py ''en-US''" and async_processing = False]
  by auto

text \<open>
  C6. The claim speaks of every audio key in the store. In the runs below the key holds
  audio and S3 refuses the existence check. \<open>check_s3_file_exists\<close> answers \<open>False\<close>, as
  in C5, so \<open>get_or_synthesize_speech\<close> goes on to \<open>synthesize_speech\<close>: without the flag
  Polly is asked for the languages, the voice and the synthesis, and the stored audio is
  overwritten; with the flag a task is started and its \<open>task_id\<close> is returned.
\<close>

theorem existing_audio_resynthesized_when_check_refused:
  "objects unreachable_world (py ''media'', py ''k.json'') = Some [7, 8] \<and>
   (case get_or_synthesize_speech (py ''media'') (py ''k.json'') (replicate 5 97) (py ''mp3'')
           (py ''en-US'') False unreachable_world of
      (r, w') \<Rightarrow>
        r = Inr (Audio_key (py ''k.json'')) \<and>
        filter is_polly (calls_since unreachable_world w') =
          [DescribeVoices None, DescribeVoices (Some (py ''en-US'')),
           SynthesizeSpeech \<lparr>req_Text = replicate 5 97, req_OutputFormat = py ''mp3'',
             req_LanguageCode = py ''en-US'', req_VoiceId = py ''Joanna'',
             req_Engine = py ''neural''\<rparr>] \<and>
        objects w' (py ''media'', py ''k.json'') = Some [1, 2, 3]) \<and>
   fst (get_or_synthesize_speech (py ''media'') (py ''k.json'') (replicate 5 97) (py ''mp3'')
          (py ''en-US'') True unreachable_world) = Inr (Task_id (py ''task-1''))"
proof -
  let ?w1 = "record_call (HeadObject (py ''media'') (py ''k.json'')) unreachable_world"
  have chk: "check_s3_file_exists (py ''media'') (py ''k.json'') unreachable_world = (False, ?w1)"
    by (rule check_fault [OF example_world_simps(8)])
  have listed: "polly_describe_voices ?w1 None = Inr (Some [joanna, lea])"
    and voice: "polly_describe_voices ?w1 (Some (py ''en-US'')) = Inr (Some [joanna])"
    by (simp_all add: unreachable_polly_simps)
  note run = synthesize_speech_run [OF listed polly_example_simps(6) voice polly_example_simps(5),
      where bucket_name = "py ''media''" and file_key = "py ''k.json''"
        and ?text = "replicate 5 97" and output_format = "py ''mp3''"]
  have len: "length (replicate 5 (97 :: nat)) < SYNTHESIZE_MAX_LENGTH"
    "length (replicate 5 (97 :: nat)) < ASYNC_SYNTHESIZE_MAX_LENGTH"
    by (simp_all add: SYNTHESIZE_MAX_LENGTH_def ASYNC_SYNTHESIZE_MAX_LENGTH_def)
  have sync: "get_or_synthesize_speech (py ''media'') (py ''k.json'') (replicate 5 97) (py ''mp3'')
           (py ''en-US'') False unreachable_world =
      (Inr (Audio_key (py ''k.json'')),
       (record_call (PutObject (py ''media'') (py ''k.json'') [1, 2, 3])
          (record_call (SynthesizeSpeech \<lparr>req_Text = replicate 5 97, req_OutputFormat = py ''mp3'',
             req_LanguageCode = py ''en-US'', req_VoiceId = voice_Id joanna,
             req_Engine = py ''neural''\<rparr>)
            (record_call (DescribeVoices (Some (py ''en-US'')))
              (record_call (DescribeVoices None) ?w1))))
       \<lparr>objects := (objects ?w1)((py ''media'', py ''k.json'') \<mapsto> [1, 2, 3])\<rparr>)"
    unfolding get_or_synthesize_speech_def chk prod.case if_False run [of False] Let_def
    using len by (simp add: unreachable_polly_simps example_world_simps)
  have async: "fst (get_or_synthesize_speech (py ''media'') (py ''k.json'') (replicate 5 97)
          (py ''mp3'') (py ''en-US'') True unreachable_world) = Inr (Task_id (py ''task-1''))"
    unfolding get_or_synthesize_speech_def chk prod.case if_False run [of True] Let_def
    using len by (simp add: unreachable_polly_simps)
  have id: "voice_Id joanna = py ''Joanna''"
    by (simp add: joanna_def)
  show ?thesis
    unfolding sync prod.case
    using async by (simp add: example_world_simps calls_since_def id)
qed

text \<open>
  C7. When the language code is not among the language codes of the voices Polly lists,
  \<open>synthesize_speech\<close> raises the unsupported-language \<open>ValueError\<close>, whatever the text and
  the flag; the listing is the only request it has made: no voice is looked up and no
  synthesis, synchronous or asynchronous, is requested.
\<close>

theorem unsupported_language_rejected:
  assumes listed: "polly_describe_voices w None = Inr (Some voices)"
      and unsupported: "language_code \<notin> set (map voice_LanguageCode voices)"
  shows "\<exists>w'. synthesize_speech bucket_name file_key text_to_synthesize output_format
                 language_code async_processing w =
                (Inl (ValueError (py ''Language Code '' @ language_code
                                   @ py '' not supported by Amazon Polly.'')), w') \<and>
              calls_since w w' = [DescribeVoices None] \<and>
              objects w' = objects w"
  using assms
  by (simp add: synthesize_speech_def describe_voices_def calls_since_def)

theorem unsupported_language_rejected_witness:
  "fst (synthesize_speech (py ''media'') (py ''a.mp3'') (replicate 5 97) (py ''mp3'')
          (py ''de-DE'') False empty_world) =
     Inl (ValueError (py ''Language Code '' @ py ''de-DE'' @ py '' not supported by Amazon Polly.''))"
  using unsupported_language_rejected
    [OF polly_example_simps(1) polly_example_simps(7),
     where bucket_name = "py ''media''" and file_key = "py ''a.mp3''"
       and text_to_synthesize = "replicate 5 97" and output_format = "py ''mp3''"
       and async_processing = False]
  by auto

text \<open>
  C10. \<open>get_synthesis_file_key\<close> is the concatenation of the file key, the task
  identifier, a dot and the output format. It is longer than the file key, hence another
  key; so an object stored at it does not change what the existence check answers for
  the file key.
\<close>

theorem synthesis_file_key_differs:
  "get_synthesis_file_key file_key task_id output_format =
     file_key @ task_id @ py ''.'' @ output_format \<and>
   length (get_synthesis_file_key file_key task_id output_format) =
     length file_key + length task_id + 1 + length output_format \<and>
   length file_key < length (get_synthesis_file_key file_key task_id output_format) \<and>
   get_synthesis_file_key file_key task_id output_format \<noteq> file_key \<and>
   fst (check_s3_file_exists bucket_name file_key
          (w\<lparr>objects := (objects w)
                ((bucket_name, get_synthesis_file_key file_key task_id output_format) \<mapsto> audio)\<rparr>)) =
     fst (check_s3_file_exists bucket_name file_key w)"
proof -
  let ?k = "get_synthesis_file_key file_key task_id output_format"
  have len: "length ?k = length file_key + length task_id + 1 + length output_format"
    by (simp add: get_synthesis_file_key_def py_def)
  then have "length ?k \<noteq> length file_key"
    by simp
  then have neq: "?k \<noteq> file_key"
    by auto
  have chk: "fst (check_s3_file_exists bucket_name file_key
          (w\<lparr>objects := (objects w)((bucket_name, ?k) \<mapsto> audio)\<rparr>)) =
     fst (check_s3_file_exists bucket_name file_key w)"
    using neq
    by (simp add: check_s3_file_exists_def head_object_def Let_def
          split: option.splits sum.splits)
  show ?thesis
    using len neq chk by (simp add: get_synthesis_file_key_def)
qed

section \<open>Text chunking\<close>

lemma rfind_bounds: "- 1 \<le> rfind s c \<and> rfind s c < int (length s)"
  by (induction s) (auto simp: Let_def)

lemma length_strip: "length (strip s) \<le> length s"
proof -
  have "length (dropWhile isspace (rev (dropWhile isspace s))) \<le> length (rev (dropWhile isspace s))"
    by (rule length_dropWhile_le)
  also have "\<dots> \<le> length s"
    by (simp add: length_dropWhile_le)
  finally show ?thesis
    by (simp add: strip_def)
qed

text \<open>
  One iteration with a positive bound: the index where the text is cut lies between 1
  and the bound.
\<close>

lemma split_index_bounds:
  assumes pos: "1 \<le> max_length"
      and first: "first = rfind (slice_to text max_length) (of_char CHR ''.'') + 1"
      and split_index: "split_index = (if first = 0 then max_length else first)"
  shows "1 \<le> split_index \<and> split_index \<le> max_length"
proof -
  have "length (slice_to text max_length) \<le> nat max_length"
    using pos by (simp add: slice_to_def slice_index_def)
  then have "0 \<le> first \<and> first \<le> max_length"
    using rfind_bounds [of "slice_to text max_length" "of_char CHR ''.''"] pos
    unfolding first by linarith
  then show ?thesis
    using pos by (auto simp: split_index)
qed

lemma split_loop_returns:
  assumes "1 \<le> max_length"
  shows "\<exists>pieces. pieces \<noteq> [] \<and> concat pieces = s \<and>
           (\<forall>p \<in> set pieces. int (length p) \<le> max_length) \<and>
           split_loop s max_length chunks = Some (chunks @ map strip pieces)"
proof (induction "length s" arbitrary: s chunks rule: less_induct)
  case less
  show ?case
  proof (cases "max_length < int (length s)")
    case False
    then have "split_loop s max_length chunks = Some (chunks @ map strip [s])"
      by (simp add: split_loop.simps [of s])
    with False show ?thesis
      by (intro exI [of _ "[s]"]) simp
  next
    case True
    define first where "first = rfind (slice_to s max_length) (of_char CHR ''.'') + 1"
    define split_index where "split_index = (if first = 0 then max_length else first)"
    have b: "1 \<le> split_index \<and> split_index \<le> max_length"
      using assms first_def split_index_def by (rule split_index_bounds)
    let ?n = "nat split_index"
    have head: "slice_to s split_index = take ?n s"
      and rest: "slice_from s split_index = drop ?n s"
      using b by (simp_all add: slice_to_def slice_from_def slice_index_def)
    have "split_loop s max_length chunks =
        split_loop (slice_from s split_index) max_length (chunks @ [strip (slice_to s split_index)])"
      using True
      by (subst split_loop.simps) (auto simp: Let_def first_def split_index_def)
    then have step: "split_loop s max_length chunks =
        split_loop (drop ?n s) max_length (chunks @ [strip (take ?n s)])"
      by (simp only: head rest)
    have "0 < ?n" "?n \<le> length s"
      using b True by linarith+
    then have "length (drop ?n s) < length s"
      by simp
    from less [OF this, of "chunks @ [strip (take ?n s)]"]
    obtain pieces where p: "pieces \<noteq> []" "concat pieces = drop ?n s"
        "\<forall>p \<in> set pieces. int (length p) \<le> max_length"
        "split_loop (drop ?n s) max_length (chunks @ [strip (take ?n s)]) =
           Some ((chunks @ [strip (take ?n s)]) @ map strip pieces)"
      by blast
    have "length (take ?n s) \<le> ?n"
      by simp
    then have "int (length (take ?n s)) \<le> max_length"
      using b by linarith
    with p step show ?thesis
      by (intro exI [of _ "take ?n s # pieces"]) simp
  qed
qed

lemma split_loop_nonpositive:
  assumes "split_loop s max_length chunks = Some r"
  shows "max_length \<le> 0 \<longrightarrow> max_length = 0 \<and> s = []"
  using assms
proof (induction s max_length chunks r rule: split_loop.raw_induct [rotated 1, consumes 1])
  case (1 loop s max_length chunks r)
  show ?case
  proof (intro impI)
    assume nonpos: "max_length \<le> 0"
    show "max_length = 0 \<and> s = []"
    proof (cases "max_length < int (length s)")
      case False
      with nonpos have "length s = 0" "max_length = 0"
        by linarith+
      then show ?thesis
        by simp
    next
      case True
      define first where "first = rfind (slice_to s max_length) (of_char CHR ''.'') + 1"
      define split_index where "split_index = (if first = 0 then max_length else first)"
      from "1.hyps" True
      have call: "loop (slice_from s split_index) max_length
                    (chunks @ [strip (slice_to s split_index)]) = Some r"
        by (auto simp: Let_def first_def split_index_def split: if_splits)
      from "1.IH" [OF call] nonpos have zero: "max_length = 0"
        and rest: "slice_from s split_index = []"
        by simp_all
      have "slice_to s max_length = []"
        using zero by (simp add: slice_to_def slice_index_def)
      then have "split_index = 0"
        using zero by (simp add: first_def split_index_def)
      with rest have "s = []"
        by (simp add: slice_from_def slice_index_def)
      with zero show ?thesis
        by simp
    qed
  qed
qed

text \<open>
  C9, as the code has it. For a bound of at least 1 \<open>split_text_into_chunks\<close> returns.
  The text is cut into consecutive pieces, none longer than the bound, and the chunks are
  the pieces stripped; so no chunk is longer than the bound, and the last chunk is the
  stripped rest of the text after the earlier pieces.
\<close>

theorem split_text_into_chunks_returns:
  assumes "1 \<le> max_length"
  shows "\<exists>chunks pieces.
           split_text_into_chunks text max_length = Some chunks \<and>
           pieces \<noteq> [] \<and> concat pieces = text \<and> chunks = map strip pieces \<and>
           (\<forall>c \<in> set chunks. int (length c) \<le> max_length) \<and>
           last chunks = strip (drop (length (concat (butlast pieces))) text)"
proof -
  from split_loop_returns [OF assms, of "text" "[]"]
  obtain pieces where p: "pieces \<noteq> []" "concat pieces = text"
      "\<forall>p \<in> set pieces. int (length p) \<le> max_length"
      "split_loop text max_length [] = Some (map strip pieces)"
    by auto
  have short: "\<forall>c \<in> set (map strip pieces). int (length c) \<le> max_length"
  proof
    fix c assume "c \<in> set (map strip pieces)"
    then obtain q where q: "q \<in> set pieces" "c = strip q"
      by auto
    have "length c \<le> length q"
      unfolding q by (rule length_strip)
    with p(3) q(1) show "int (length c) \<le> max_length"
      by fastforce
  qed
  have "concat (butlast pieces) @ last pieces = concat pieces"
    using p(1) by (metis append_butlast_last_id concat.simps concat_append append_Nil2)
  then have "drop (length (concat (butlast pieces))) text = last pieces"
    using p(2) by (metis append_eq_conv_conj)
  then have final: "last (map strip pieces) = strip (drop (length (concat (butlast pieces))) text)"
    using p(1) by (simp add: last_map)
  show ?thesis
    using p short final
    by (intro exI [of _ "map strip pieces"] exI [of _ pieces])
       (simp add: split_text_into_chunks_def)
qed

theorem split_text_into_chunks_returns_witness:
  "split_text_into_chunks (py ''Hello world. This is it. And more'') 15 =
     Some (map py [''Hello world.'', ''This is it.'', ''And more'']) \<and>
   list_all (\<lambda>c. int (length c) \<le> 15)
     (map py [''Hello world.'', ''This is it.'', ''And more''])"
proof -
  have run: "split_text_into_chunks (py ''Hello world. This is it. And more'') 15 =
     Some (map py [''Hello world.'', ''This is it.'', ''And more''])"
    by code_simp
  from split_text_into_chunks_returns [of 15 "py ''Hello world. This is it. And more''"]
  obtain chunks where
    "split_text_into_chunks (py ''Hello world. This is it. And more'') 15 = Some chunks"
    "\<forall>c \<in> set chunks. int (length c) \<le> 15"
    by auto
  with run show ?thesis
    by (simp add: list_all_iff)
qed

text \<open>
  C9, as stated, fails for a bound of 0: on the text \<open>a\<close> every iteration cuts at index 0
  and leaves the text as it is, so the loop never ends.
\<close>

theorem split_text_into_chunks_zero_counterexample:
  "split_text_into_chunks (py ''a'') 0 = None"
proof (cases "split_text_into_chunks (py ''a'') 0")
  case None
  then show ?thesis .
next
  case (Some r)
  then have "split_loop (py ''a'') 0 [] = Some r"
    by (simp add: split_text_into_chunks_def)
  from split_loop_nonpositive [OF this] have "py ''a'' = []"
    by simp
  then show ?thesis
    by (simp add: py_def)
qed

section \<open>The deterministic identifier\<close>

lemma allowed_chars_hash:
  assumes "c \<in> set ALLOWED_CHARS_HASH"
  shows "(of_char CHR ''a'' \<le> c \<and> c \<le> of_char CHR ''z'') \<or>
         (of_char CHR ''A'' \<le> c \<and> c \<le> of_char CHR ''Z'') \<or>
         (of_char CHR ''0'' \<le> c \<and> c \<le> of_char CHR ''9'') \<or>
         c = of_char CHR ''.'' \<or> c = of_char CHR ''_'' \<or> c = of_char CHR ''-''"
  using assms by (auto simp: ALLOWED_CHARS_HASH_def py_def)

lemma utf8_returns:
  "c < 0xD800 \<or> (0xDFFF < c \<and> c < 0x110000) \<Longrightarrow> \<exists>bs. utf8 c = Inr bs"
  by (auto simp: utf8_def)

lemma encode_returns:
  "\<forall>c \<in> set s. c < 0xD800 \<or> (0xDFFF < c \<and> c < 0x110000) \<Longrightarrow> \<exists>bs. encode s = Inr bs"
proof (induction s)
  case Nil
  then show ?case by simp
next
  case (Cons c s)
  then obtain bs rest where "utf8 c = Inr bs" "encode s = Inr rest"
    using utf8_returns [of c] by auto
  then show ?case by simp
qed

text \<open>
  C8. Whatever the digest function, an identifier that \<open>deterministic_hash\<close> returns
  holds only letters, digits, \<open>.\<close>, \<open>_\<close> and \<open>-\<close>; and it returns one for every string of
  Unicode scalar values (a string with a surrogate cannot be encoded).
\<close>

theorem deterministic_hash_alphabet:
  "(\<forall>h. deterministic_hash sha256 file_key = Inr h \<longrightarrow>
      (\<forall>c \<in> set h.
         (of_char CHR ''a'' \<le> c \<and> c \<le> of_char CHR ''z'') \<or>
         (of_char CHR ''A'' \<le> c \<and> c \<le> of_char CHR ''Z'') \<or>
         (of_char CHR ''0'' \<le> c \<and> c \<le> of_char CHR ''9'') \<or>
         c = of_char CHR ''.'' \<or> c = of_char CHR ''_'' \<or> c = of_char CHR ''-'')) \<and>
   ((\<forall>c \<in> set file_key. c < 0xD800 \<or> (0xDFFF < c \<and> c < 0x110000)) \<longrightarrow>
      (\<exists>h. deterministic_hash sha256 file_key = Inr h))"
proof (intro conjI allI impI ballI)
  fix h c
  assume "deterministic_hash sha256 file_key = Inr h" and "c \<in> set h"
  then have "c \<in> set ALLOWED_CHARS_HASH"
    by (auto simp: deterministic_hash_def Let_def split: sum.splits)
  then show "(of_char CHR ''a'' \<le> c \<and> c \<le> of_char CHR ''z'') \<or>
         (of_char CHR ''A'' \<le> c \<and> c \<le> of_char CHR ''Z'') \<or>
         (of_char CHR ''0'' \<le> c \<and> c \<le> of_char CHR ''9'') \<or>
         c = of_char CHR ''.'' \<or> c = of_char CHR ''_'' \<or> c = of_char CHR ''-''"
    by (rule allowed_chars_hash)
next
  assume valid: "\<forall>c \<in> set file_key. c < 0xD800 \<or> (0xDFFF < c \<and> c < 0x110000)"
  define result where "result =
    (if str_find file_key (py ''videos'') \<noteq> - 1
     then slice_from file_key (str_find file_key (py ''videos'')) else file_key)"
  have "set result \<subseteq> set file_key"
    by (auto simp: result_def slice_from_def dest: in_set_dropD)
  with valid have "\<forall>c \<in> set result. c < 0xD800 \<or> (0xDFFF < c \<and> c < 0x110000)"
    by blast
  then obtain message where "encode result = Inr message"
    using encode_returns by blast
  then show "\<exists>h. deterministic_hash sha256 file_key = Inr h"
    by (simp add: deterministic_hash_def Let_def result_def)
qed

theorem deterministic_hash_alphabet_witness:
  "deterministic_hash lecture1_sha256 (py ''s3://bucket/videos/lecture1.mp4'') =
     Inr (py ''Gp-09fzSSRRWSctibkGvLqdfRiT_NZJ5Z-SPcGGigoQ'') \<and>
   list_all (\<lambda>c. (of_char CHR ''a'' \<le> c \<and> c \<le> of_char CHR ''z'') \<or>
         (of_char CHR ''A'' \<le> c \<and> c \<le> of_char CHR ''Z'') \<or>
         (of_char CHR ''0'' \<le> c \<and> c \<le> of_char CHR ''9'') \<or>
         c = of_char CHR ''.'' \<or> c = of_char CHR ''_'' \<or> c = of_char CHR ''-'')
     (py ''Gp-09fzSSRRWSctibkGvLqdfRiT_NZJ5Z-SPcGGigoQ'')"
proof -
  have run: "deterministic_hash lecture1_sha256 (py ''s3://bucket/videos/lecture1.mp4'') =
     Inr (py ''Gp-09fzSSRRWSctibkGvLqdfRiT_NZJ5Z-SPcGGigoQ'')"
    by code_simp
  from deterministic_hash_alphabet
         [of lecture1_sha256 "py ''s3://bucket/videos/lecture1.mp4''"] run
  have "\<forall>c \<in> set (py ''Gp-09fzSSRRWSctibkGvLqdfRiT_NZJ5Z-SPcGGigoQ'').
         (of_char CHR ''a'' \<le> c \<and> c \<le> of_char CHR ''z'') \<or>
         (of_char CHR ''A'' \<le> c \<and> c \<le> of_char CHR ''Z'') \<or>
         (of_char CHR ''0'' \<le> c \<and> c \<le> of_char CHR ''9'') \<or>
         c = of_char CHR ''.'' \<or> c = of_char CHR ''_'' \<or> c = of_char CHR ''-''"
    by blast
  with run show ?thesis
    unfolding list_all_iff by (intro conjI)
qed

end
